theory Spec2Isabelle
  imports Main
begin

section \<open>Strings, errors and the crawler's data\<close>

text \<open>
  A Python \<open>str\<close> is a sequence of Unicode code points, a \<open>bytes\<close> object a sequence
  of numbers below 256. Both are lists of naturals; a string literal of the source is
  written \<open>str ''...''\<close>.
\<close>

type_synonym pystr = "nat list"
type_synonym pybytes = "nat list"

definition str :: "string \<Rightarrow> pystr" where
  "str cs = map of_char cs"

text \<open>The exceptions that the modelled calls can raise.\<close>

datatype error =
    PlaywrightTimeoutError
  | PlaywrightError
  | UnicodeEncodeError
  | NotModelled

text \<open>
  \<open>crawlee.Request\<close>, as far as the handlers use it: the target URL, the routing label
  and the URL the browser ended on (\<open>loaded_url\<close>, \<open>None\<close> until a page was loaded).
\<close>

record request =
  url :: pystr
  label :: "pystr option"
  loaded_url :: "pystr option"

definition from_url :: "pystr \<Rightarrow> pystr \<Rightarrow> request" where
  \<comment> \<open>\<open>Request.from_url(url, label=label)\<close>\<close>
  "from_url u l = \<lparr>url = u, label = Some l, loaded_url = None\<rparr>"

text \<open>
  A value of the dictionary handed to \<open>push_data\<close>, and the dictionary itself with its
  keys in insertion order.
\<close>

datatype cell = Text pystr | Null

type_synonym row = "(pystr \<times> cell) list"

text \<open>
  The browser page is outside the program. It is modelled by the outcome of each call
  the handlers make on it: the load wait raises or returns, a locator's
  \<open>evaluate_all\<close> raises or returns the list computed by the script, a locator's
  \<open>text_content\<close> raises (no element, several elements, timeout) or returns the text
  of the one element it resolved to.
\<close>

record page =
  wait_for_load_state :: "pystr \<Rightarrow> error option"
  evaluate_all :: "pystr \<Rightarrow> pystr \<Rightarrow> error + pystr list"
  text_content :: "pystr \<Rightarrow> error + pystr"

text \<open>The calls a handler awaits, in the order it issues them.\<close>

datatype event =
    EvaluateAll pystr pystr
  | AddRequests "request list"
  | WaitForLoadState pystr
  | TextContent pystr
  | PushData row

text \<open>
  \<open>PlaywrightCrawlingContext\<close>: the request being handled, its page, and the effects
  of the handler so far: the requests submitted to the crawler's queue, the rows pushed
  to the result sink, and the log of awaited calls.
\<close>

record crawling_context =
  request :: request
  page :: page
  request_queue :: "request list"
  dataset :: "row list"
  awaited :: "event list"

section \<open>Awaited calls\<close>

text \<open>
  A coroutine of the source is a function from the context to an outcome (\<open>Inl\<close> the
  exception raised, \<open>Inr\<close> the value returned) and the context it leaves behind.
  \<open>await m f\<close> runs \<open>m\<close> and, unless it raised, continues with \<open>f\<close> on its value.
\<close>

type_synonym 'a coroutine = "crawling_context \<Rightarrow> (error + 'a) \<times> crawling_context"

definition await :: "'a coroutine \<Rightarrow> ('a \<Rightarrow> 'b coroutine) \<Rightarrow> 'b coroutine" where
  "await m f = (\<lambda>ctx. case m ctx of
      (Inl e, ctx') \<Rightarrow> (Inl e, ctx')
    | (Inr a, ctx') \<Rightarrow> f a ctx')"

definition logged :: "event \<Rightarrow> crawling_context \<Rightarrow> crawling_context" where
  "logged ev ctx = ctx\<lparr>awaited := awaited ctx @ [ev]\<rparr>"

definition page_wait_for_load_state :: "pystr \<Rightarrow> unit coroutine" where
  "page_wait_for_load_state st = (\<lambda>ctx.
     (case wait_for_load_state (page ctx) st of Some e \<Rightarrow> Inl e | None \<Rightarrow> Inr (),
      logged (WaitForLoadState st) ctx))"

definition locator_evaluate_all :: "pystr \<Rightarrow> pystr \<Rightarrow> (pystr list) coroutine" where
  "locator_evaluate_all sel expr = (\<lambda>ctx.
     (evaluate_all (page ctx) sel expr, logged (EvaluateAll sel expr) ctx))"

definition locator_text_content :: "pystr \<Rightarrow> pystr coroutine" where
  "locator_text_content sel = (\<lambda>ctx.
     (text_content (page ctx) sel, logged (TextContent sel) ctx))"

definition add_requests :: "request list \<Rightarrow> unit coroutine" where
  "add_requests reqs = (\<lambda>ctx.
     (Inr (), logged (AddRequests reqs) (ctx\<lparr>request_queue := request_queue ctx @ reqs\<rparr>)))"

definition push_data :: "row \<Rightarrow> unit coroutine" where
  "push_data r = (\<lambda>ctx.
     (Inr (), logged (PushData r) (ctx\<lparr>dataset := dataset ctx @ [r]\<rparr>)))"

section \<open>The whitespace pattern\<close>

text \<open>
  \<open>\s\<close> in a \<open>str\<close> pattern matches the code points for which the interpreter's
  \<open>Py_UNICODE_ISSPACE\<close> holds.
\<close>

definition isspace :: "nat \<Rightarrow> bool" where
  "isspace c \<longleftrightarrow>
     (0x09 \<le> c \<and> c \<le> 0x0D) \<or> (0x1C \<le> c \<and> c \<le> 0x20) \<or> c = 0x85 \<or> c = 0xA0 \<or>
     c = 0x1680 \<or> (0x2000 \<le> c \<and> c \<le> 0x200A) \<or> c = 0x2028 \<or> c = 0x2029 \<or>
     c = 0x202F \<or> c = 0x205F \<or> c = 0x3000"

definition in_class :: "nat \<Rightarrow> bool" where
  \<comment> \<open>the character set \<open>[\s\n]\<close>\<close>
  "in_class c \<longleftrightarrow> isspace c \<or> c = 0x0A"

text \<open>
  \<open>re.sub(r'[\s\n]+', '', string)\<close>: scanning from the left, where the set matches the
  match is extended as far as it goes and replaced by the empty string, and the scan
  goes on behind it; any other character is copied.
\<close>

function re_sub :: "pystr \<Rightarrow> pystr" where
  "re_sub [] = []"
| "re_sub (c # cs) =
     (if in_class c then re_sub (dropWhile in_class cs) else c # re_sub cs)"
  by pat_completeness auto
termination
  by (relation "measure length") (auto simp: le_imp_less_Suc length_dropWhile_le)

section \<open>routes.py\<close>

definition default_handler :: "unit coroutine" where
  "default_handler =
     await (locator_evaluate_all (str ''ul.jobs-search__results-list a'')
              (str ''links => links.map(link => link.href)''))
       (\<lambda>hrefs. add_requests (map (\<lambda>rec. from_url rec (str ''job_listing'')) hrefs))"

definition listing_handler :: "unit coroutine" where
  "listing_handler =
     await (page_wait_for_load_state (str ''load'')) (\<lambda>_.
     await (locator_text_content
              (str ''div.top-card-layout__entity-info h1.top-card-layout__title'')) (\<lambda>job_title.
     await (locator_text_content (str ''span.topcard__flavor a'')) (\<lambda>company_name.
     await (locator_text_content
              (str ''div.topcard__flavor-row span.posted-time-ago__text'')) (\<lambda>time_of_posting.
     (\<lambda>ctx. push_data
        [(str ''title'', Text (re_sub job_title)),
         (str ''Company name'', Text (re_sub company_name)),
         (str ''Time of posting'', Text (re_sub time_of_posting)),
         (str ''url'', case loaded_url (request ctx) of None \<Rightarrow> Null | Some u \<Rightarrow> Text u)]
        ctx)))))"

text \<open>
  The router: a request whose label has a handler goes to it, every other request to
  the default handler.
\<close>

definition router :: "unit coroutine" where
  "router = (\<lambda>ctx.
     if label (request ctx) = Some (str ''job_listing'') then listing_handler ctx
     else default_handler ctx)"

section \<open>What a handler run did\<close>

text \<open>The calls awaited and the rows emitted by one run of a handler from \<open>ctx\<close>.\<close>

definition handler_calls :: "unit coroutine \<Rightarrow> crawling_context \<Rightarrow> event list" where
  "handler_calls h ctx = drop (length (awaited ctx)) (awaited (snd (h ctx)))"

definition emitted :: "unit coroutine \<Rightarrow> crawling_context \<Rightarrow> row list" where
  "emitted h ctx = drop (length (dataset ctx)) (dataset (snd (h ctx)))"

fun is_read :: "event \<Rightarrow> bool" where
  "is_read (TextContent sel) = True"
| "is_read ev = False"

fun is_push_data :: "event \<Rightarrow> bool" where
  "is_push_data (PushData r) = True"
| "is_push_data ev = False"

section \<open>Runs of whitespace, as the specification words the normalisation\<close>

text \<open>
  \<open>runs P s\<close> cuts \<open>s\<close> into its maximal runs of characters that agree on \<open>P\<close>.
  A whitespace run is a run of characters of the pattern's set; the specification
  describes the normalised text as the concatenation of the other runs.
\<close>

function runs :: "(nat \<Rightarrow> bool) \<Rightarrow> pystr \<Rightarrow> pystr list" where
  "runs P [] = []"
| "runs P (c # cs) =
     (c # takeWhile (\<lambda>d. P d = P c) cs) # runs P (dropWhile (\<lambda>d. P d = P c) cs)"
  by pat_completeness auto
termination
  by (relation "measure (\<lambda>(P, s). length s)") (auto simp: le_imp_less_Suc length_dropWhile_le)

definition is_whitespace_run :: "pystr \<Rightarrow> bool" where
  "is_whitespace_run r \<longleftrightarrow> r \<noteq> [] \<and> list_all in_class r"

definition non_whitespace_runs :: "pystr \<Rightarrow> pystr list" where
  "non_whitespace_runs s = filter (\<lambda>r. \<not> is_whitespace_run r) (runs in_class s)"

section \<open>Example pages\<close>

definition results_page :: page where
  "results_page = \<lparr>
     wait_for_load_state = (\<lambda>st. None),
     evaluate_all = (\<lambda>sel expr. Inr
       [str ''https://www.linkedin.com/jobs/view/1'',
        str ''https://www.linkedin.com/jobs/view/2'',
        str ''https://www.linkedin.com/jobs/view/1'']),
     text_content = (\<lambda>sel. Inl PlaywrightTimeoutError)\<rparr>"

definition empty_results_page :: page where
  "empty_results_page = \<lparr>
     wait_for_load_state = (\<lambda>st. None),
     evaluate_all = (\<lambda>sel expr. Inr []),
     text_content = (\<lambda>sel. Inl PlaywrightTimeoutError)\<rparr>"

definition detail_page :: page where
  "detail_page = \<lparr>
     wait_for_load_state = (\<lambda>st. None),
     evaluate_all = (\<lambda>sel expr. Inr []),
     text_content = (\<lambda>sel.
       if sel = str ''div.top-card-layout__entity-info h1.top-card-layout__title''
       then Inr (str ''Senior'' @ [0x0A, 0x20, 0x20] @ str ''Engineer'')
       else if sel = str ''span.topcard__flavor a''
       then Inr ([0x0A, 0x09] @ str ''Acme Corp'' @ [0x0A])
       else if sel = str ''div.topcard__flavor-row span.posted-time-ago__text''
       then Inr (str ''3 days ago'')
       else Inl PlaywrightTimeoutError)\<rparr>"

definition untitled_page :: page where
  \<comment> \<open>a job page without the title element\<close>
  "untitled_page = \<lparr>
     wait_for_load_state = (\<lambda>st. None),
     evaluate_all = (\<lambda>sel expr. Inr []),
     text_content = (\<lambda>sel.
       if sel = str ''div.top-card-layout__entity-info h1.top-card-layout__title''
       then Inl PlaywrightTimeoutError
       else Inr (str ''Acme Corp''))\<rparr>"

definition stalled_page :: page where
  \<comment> \<open>a page whose load wait times out\<close>
  "stalled_page = \<lparr>
     wait_for_load_state = (\<lambda>st. Some PlaywrightTimeoutError),
     evaluate_all = (\<lambda>sel expr. Inr []),
     text_content = (\<lambda>sel. Inr (str ''Acme Corp''))\<rparr>"

definition fresh_context :: "page \<Rightarrow> crawling_context" where
  "fresh_context p = \<lparr>
     request = \<lparr>url = str ''https://www.linkedin.com/jobs/view/1'', label = None,
                loaded_url = Some (str ''https://uk.linkedin.com/jobs/view/1'')\<rparr>,
     page = p, request_queue = [], dataset = [], awaited = []\<rparr>"

section \<open>Properties of the normalisation\<close>

lemma filter_not_dropWhile:
  "filter (\<lambda>c. \<not> P c) (dropWhile P xs) = filter (\<lambda>c. \<not> P c) xs"
  by (induction xs) simp_all

lemma re_sub_filter: "re_sub s = filter (\<lambda>c. \<not> in_class c) s"
  by (induction s rule: re_sub.induct) (simp_all add: filter_not_dropWhile)

lemma in_class_isspace: "in_class c \<longleftrightarrow> isspace c"
  unfolding in_class_def isspace_def by linarith

lemma re_sub_clean: "c \<in> set (re_sub s) \<Longrightarrow> \<not> isspace c"
  by (simp add: re_sub_filter in_class_isspace)

lemma re_sub_idem: "re_sub (re_sub s) = re_sub s"
  by (simp add: re_sub_filter)

text \<open>
  \<open>runs\<close> is a decomposition of the string into non-empty pieces, each piece is
  uniform in \<open>P\<close>, and neighbouring pieces differ in \<open>P\<close>: the pieces are the
  maximal runs.
\<close>

lemma concat_runs: "concat (runs P s) = s"
  by (induction P s rule: runs.induct) simp_all

lemma runs_nonempty: "r \<in> set (runs P s) \<Longrightarrow> r \<noteq> []"
  by (induction P s rule: runs.induct) auto

lemma runs_hd: "r \<in> set (runs P s) \<Longrightarrow> x \<in> set r \<Longrightarrow> P x = P (hd r)"
proof (induction P s rule: runs.induct)
  case (1 P)
  then show ?case by simp
next
  case (2 P c cs)
  from "2.prems"(1) consider "r = c # takeWhile (\<lambda>d. P d = P c) cs"
    | "r \<in> set (runs P (dropWhile (\<lambda>d. P d = P c) cs))"
    by auto
  then show ?case
  proof cases
    case 1
    with "2.prems"(2) show ?thesis by (auto dest: set_takeWhileD)
  next
    case 2
    then show ?thesis using "2.IH" "2.prems"(2) by blast
  qed
qed

lemma runs_maximal:
  "i + 1 < length (runs P s) \<Longrightarrow> P (hd (runs P s ! i)) \<noteq> P (hd (runs P s ! (i + 1)))"
proof (induction P s arbitrary: i rule: runs.induct)
  case (1 P)
  then show ?case by simp
next
  case (2 P c cs)
  show ?case
  proof (cases i)
    case 0
    with "2.prems" obtain d ds where d: "dropWhile (\<lambda>d. P d = P c) cs = d # ds"
      by (cases "dropWhile (\<lambda>d. P d = P c) cs") auto
    then have "P d \<noteq> P c" using hd_dropWhile[of "\<lambda>d. P d = P c" cs] by auto
    with 0 d show ?thesis by simp
  next
    case (Suc j)
    with 2 show ?thesis by simp
  qed
qed

lemma run_class:
  assumes "r \<in> set (runs in_class s)"
  shows "filter (\<lambda>c. \<not> in_class c) r = (if is_whitespace_run r then [] else r)"
proof (cases "is_whitespace_run r")
  case True
  then show ?thesis by (simp add: is_whitespace_run_def filter_empty_conv list_all_iff)
next
  case False
  from assms have ne: "r \<noteq> []" by (rule runs_nonempty)
  with False obtain x where x: "x \<in> set r" "\<not> in_class x"
    by (auto simp: is_whitespace_run_def list_all_iff)
  have "\<forall>y \<in> set r. \<not> in_class y"
  proof
    fix y assume "y \<in> set r"
    then have "in_class y = in_class (hd r)" by (rule runs_hd[OF assms])
    moreover have "in_class x = in_class (hd r)" using x(1) by (rule runs_hd[OF assms])
    ultimately show "\<not> in_class y" using x(2) by simp
  qed
  then show ?thesis using False by (simp add: filter_id_conv)
qed

lemma filter_runs:
  "filter (\<lambda>c. \<not> in_class c) s =
     concat (map (\<lambda>r. if is_whitespace_run r then [] else r) (runs in_class s))"
proof -
  have "filter (\<lambda>c. \<not> in_class c) s = filter (\<lambda>c. \<not> in_class c) (concat (runs in_class s))"
    by (simp only: concat_runs)
  also have "\<dots> = concat (map (filter (\<lambda>c. \<not> in_class c)) (runs in_class s))"
    by (simp only: filter_concat)
  also have "\<dots> = concat (map (\<lambda>r. if is_whitespace_run r then [] else r) (runs in_class s))"
    by (rule arg_cong[where f=concat], rule map_cong[OF refl]) (rule run_class)
  finally show ?thesis .
qed

lemma concat_map_if:
  "concat (map (\<lambda>r. if Q r then [] else r) rs) = concat (filter (\<lambda>r. \<not> Q r) rs)"
  by (induction rs) simp_all

text \<open>
  C2: \<open>re.sub(r'[\s\n]+', '', s)\<close> replaces every maximal run of whitespace by the
  empty string, so the result is the concatenation of the non-whitespace runs with no
  separator; \<open>"Senior\n  Engineer"\<close> becomes \<open>"SeniorEngineer"\<close>.
\<close>

theorem re_sub_removes_whitespace_runs:
  "re_sub s = concat (map (\<lambda>r. if is_whitespace_run r then [] else r) (runs in_class s))
   \<and> re_sub s = concat (non_whitespace_runs s)
   \<and> re_sub (str ''Senior'' @ [0x0A, 0x20, 0x20] @ str ''Engineer'') = str ''SeniorEngineer''"
proof (intro conjI)
  show a: "re_sub s = concat (map (\<lambda>r. if is_whitespace_run r then [] else r) (runs in_class s))"
    by (simp only: re_sub_filter filter_runs)
  show "re_sub s = concat (non_whitespace_runs s)"
    by (simp only: a concat_map_if non_whitespace_runs_def)
  show "re_sub (str ''Senior'' @ [0x0A, 0x20, 0x20] @ str ''Engineer'') = str ''SeniorEngineer''"
    by (simp add: str_def in_class_def isspace_def)
qed

section \<open>The discovery handler\<close>

lemmas coroutine_defs = await_def logged_def page_wait_for_load_state_def
  locator_evaluate_all_def locator_text_content_def add_requests_def push_data_def

text \<open>
  C3: when the anchors under the results-list selector yield the hrefs \<open>hrefs\<close>
  (duplicates allowed), the discovery handler submits exactly \<open>length hrefs\<close> new
  requests, in one \<open>add_requests\<close> call; the request at each position has the label
  \<open>job_listing\<close> and the href at that position as its URL.
\<close>

theorem default_handler_enqueues:
  assumes "evaluate_all (page ctx) (str ''ul.jobs-search__results-list a'')
             (str ''links => links.map(link => link.href)'') = Inr hrefs"
  shows "\<exists>reqs. fst (default_handler ctx) = Inr ()
     \<and> request_queue (snd (default_handler ctx)) = request_queue ctx @ reqs
     \<and> handler_calls default_handler ctx =
         [EvaluateAll (str ''ul.jobs-search__results-list a'')
            (str ''links => links.map(link => link.href)''), AddRequests reqs]
     \<and> length reqs = length hrefs
     \<and> (\<forall>i < length hrefs. url (reqs ! i) = hrefs ! i
            \<and> label (reqs ! i) = Some (str ''job_listing''))"
  using assms
  by (intro exI[of _ "map (\<lambda>rec. from_url rec (str ''job_listing'')) hrefs"])
     (simp add: default_handler_def coroutine_defs from_url_def handler_calls_def)

theorem default_handler_enqueues_witness:
  "fst (default_handler (fresh_context results_page)) = Inr ()
   \<and> length (request_queue (snd (default_handler (fresh_context results_page)))) = 3"
proof -
  have h: "evaluate_all (page (fresh_context results_page))
             (str ''ul.jobs-search__results-list a'')
             (str ''links => links.map(link => link.href)'') =
           Inr [str ''https://www.linkedin.com/jobs/view/1'',
                str ''https://www.linkedin.com/jobs/view/2'',
                str ''https://www.linkedin.com/jobs/view/1'']"
    by (simp add: fresh_context_def results_page_def)
  have q: "request_queue (fresh_context results_page) = []"
    by (simp add: fresh_context_def)
  from default_handler_enqueues[OF h] obtain reqs where
    "fst (default_handler (fresh_context results_page)) = Inr ()"
    "request_queue (snd (default_handler (fresh_context results_page))) =
       request_queue (fresh_context results_page) @ reqs"
    "length reqs = 3"
    by fastforce
  with q show ?thesis by simp
qed

text \<open>
  C6: when the results-list selector matches no anchor, the discovery handler returns
  without raising and the request queue is as it was: nothing is enqueued.
\<close>

theorem default_handler_no_anchors:
  assumes "evaluate_all (page ctx) (str ''ul.jobs-search__results-list a'')
             (str ''links => links.map(link => link.href)'') = Inr []"
  shows "fst (default_handler ctx) = Inr ()
     \<and> request_queue (snd (default_handler ctx)) = request_queue ctx"
  using assms by (simp add: default_handler_def coroutine_defs)

theorem default_handler_no_anchors_witness:
  "fst (default_handler (fresh_context empty_results_page)) = Inr ()
   \<and> request_queue (snd (default_handler (fresh_context empty_results_page))) = []"
proof -
  have h: "evaluate_all (page (fresh_context empty_results_page))
             (str ''ul.jobs-search__results-list a'')
             (str ''links => links.map(link => link.href)'') = Inr []"
    by (simp add: fresh_context_def empty_results_page_def)
  have q: "request_queue (fresh_context empty_results_page) = []"
    by (simp add: fresh_context_def)
  from default_handler_no_anchors[OF h] q show ?thesis by simp
qed

text \<open>
  C8: the discovery handler never touches the result sink: whatever the page yields,
  the dataset after the run is the dataset before it, and no \<open>push_data\<close> call is among
  the calls it awaits. Its request and page are unchanged too.
\<close>

theorem default_handler_emits_nothing:
  "dataset (snd (default_handler ctx)) = dataset ctx
   \<and> emitted default_handler ctx = []
   \<and> filter is_push_data (handler_calls default_handler ctx) = []
   \<and> request (snd (default_handler ctx)) = request ctx
   \<and> page (snd (default_handler ctx)) = page ctx"
  by (simp add: default_handler_def coroutine_defs handler_calls_def emitted_def
      split: sum.splits)

section \<open>The extraction handler\<close>

lemma listing_handler_pushes:
  assumes "wait_for_load_state (page ctx) (str ''load'') = None"
    and "text_content (page ctx)
           (str ''div.top-card-layout__entity-info h1.top-card-layout__title'') = Inr t"
    and "text_content (page ctx) (str ''span.topcard__flavor a'') = Inr c"
    and "text_content (page ctx)
           (str ''div.topcard__flavor-row span.posted-time-ago__text'') = Inr p"
  shows "listing_handler ctx =
     (Inr (),
      ctx\<lparr>dataset := dataset ctx @
          [[(str ''title'', Text (re_sub t)),
            (str ''Company name'', Text (re_sub c)),
            (str ''Time of posting'', Text (re_sub p)),
            (str ''url'', case loaded_url (request ctx) of None \<Rightarrow> Null | Some u \<Rightarrow> Text u)]],
        awaited := awaited ctx @
          [WaitForLoadState (str ''load''),
           TextContent (str ''div.top-card-layout__entity-info h1.top-card-layout__title''),
           TextContent (str ''span.topcard__flavor a''),
           TextContent (str ''div.topcard__flavor-row span.posted-time-ago__text''),
           PushData
            [(str ''title'', Text (re_sub t)),
             (str ''Company name'', Text (re_sub c)),
             (str ''Time of posting'', Text (re_sub p)),
             (str ''url'', case loaded_url (request ctx) of None \<Rightarrow> Null | Some u \<Rightarrow> Text u)]]\<rparr>)"
  using assms by (simp add: listing_handler_def coroutine_defs)

text \<open>The run of the extraction handler on the example job page.\<close>

lemma detail_page_row:
  "emitted listing_handler (fresh_context detail_page) =
     [[(str ''title'', Text (str ''SeniorEngineer'')),
       (str ''Company name'', Text (str ''AcmeCorp'')),
       (str ''Time of posting'', Text (str ''3daysago'')),
       (str ''url'', Text (str ''https://uk.linkedin.com/jobs/view/1''))]]"
proof -
  have w: "wait_for_load_state (page (fresh_context detail_page)) (str ''load'') = None"
    by (simp add: fresh_context_def detail_page_def)
  have t: "text_content (page (fresh_context detail_page))
             (str ''div.top-card-layout__entity-info h1.top-card-layout__title'') =
           Inr (str ''Senior'' @ [0x0A, 0x20, 0x20] @ str ''Engineer'')"
    by (simp add: fresh_context_def detail_page_def)
  have c: "text_content (page (fresh_context detail_page)) (str ''span.topcard__flavor a'') =
           Inr ([0x0A, 0x09] @ str ''Acme Corp'' @ [0x0A])"
    by (simp add: fresh_context_def detail_page_def str_def)
  have p: "text_content (page (fresh_context detail_page))
             (str ''div.topcard__flavor-row span.posted-time-ago__text'') =
           Inr (str ''3 days ago'')"
    by (simp add: fresh_context_def detail_page_def str_def)
  have n: "re_sub (str ''Senior'' @ [0x0A, 0x20, 0x20] @ str ''Engineer'') = str ''SeniorEngineer''"
    "re_sub ([0x0A, 0x09] @ str ''Acme Corp'' @ [0x0A]) = str ''AcmeCorp''"
    "re_sub (str ''3 days ago'') = str ''3daysago''"
    by (simp_all add: str_def in_class_def isspace_def)
  have u: "loaded_url (request (fresh_context detail_page)) =
           Some (str ''https://uk.linkedin.com/jobs/view/1'')"
    by (simp add: fresh_context_def)
  have "emitted listing_handler (fresh_context detail_page) =
      [[(str ''title'', Text (re_sub (str ''Senior'' @ [0x0A, 0x20, 0x20] @ str ''Engineer''))),
        (str ''Company name'', Text (re_sub ([0x0A, 0x09] @ str ''Acme Corp'' @ [0x0A]))),
        (str ''Time of posting'', Text (re_sub (str ''3 days ago''))),
        (str ''url'', case loaded_url (request (fresh_context detail_page)) of
           None \<Rightarrow> Null | Some u \<Rightarrow> Text u)]]"
    unfolding emitted_def listing_handler_pushes[OF w t c p] by simp
  then show ?thesis by (simp only: n u option.case)
qed


text \<open>
  C4: when the load wait returns and the three locator reads return texts, the
  extraction handler emits exactly one row. Its keys are, in this order and with this
  spelling, \<open>title\<close>, \<open>Company name\<close>, \<open>Time of posting\<close> and \<open>url\<close>; the first three hold
  the normalised texts and \<open>url\<close> holds the request's \<open>loaded_url\<close>.
\<close>

theorem listing_handler_emits_one_row:
  assumes "wait_for_load_state (page ctx) (str ''load'') = None"
    and "text_content (page ctx)
           (str ''div.top-card-layout__entity-info h1.top-card-layout__title'') = Inr t"
    and "text_content (page ctx) (str ''span.topcard__flavor a'') = Inr c"
    and "text_content (page ctx)
           (str ''div.topcard__flavor-row span.posted-time-ago__text'') = Inr p"
  shows "fst (listing_handler ctx) = Inr ()
     \<and> emitted listing_handler ctx =
         [[(str ''title'', Text (re_sub t)),
           (str ''Company name'', Text (re_sub c)),
           (str ''Time of posting'', Text (re_sub p)),
           (str ''url'', case loaded_url (request ctx) of None \<Rightarrow> Null | Some u \<Rightarrow> Text u)]]
     \<and> dataset (snd (listing_handler ctx)) = dataset ctx @ emitted listing_handler ctx"
  using assms by (simp add: listing_handler_def coroutine_defs emitted_def)

theorem listing_handler_emits_one_row_witness:
  "fst (listing_handler (fresh_context detail_page)) = Inr ()
   \<and> emitted listing_handler (fresh_context detail_page) =
       [[(str ''title'', Text (str ''SeniorEngineer'')),
         (str ''Company name'', Text (str ''AcmeCorp'')),
         (str ''Time of posting'', Text (str ''3daysago'')),
         (str ''url'', Text (str ''https://uk.linkedin.com/jobs/view/1''))]]"
proof -
  have w: "wait_for_load_state (page (fresh_context detail_page)) (str ''load'') = None"
    by (simp add: fresh_context_def detail_page_def)
  have t: "text_content (page (fresh_context detail_page))
             (str ''div.top-card-layout__entity-info h1.top-card-layout__title'') =
           Inr (str ''Senior'' @ [0x0A, 0x20, 0x20] @ str ''Engineer'')"
    by (simp add: fresh_context_def detail_page_def)
  have c: "text_content (page (fresh_context detail_page)) (str ''span.topcard__flavor a'') =
           Inr ([0x0A, 0x09] @ str ''Acme Corp'' @ [0x0A])"
    by (simp add: fresh_context_def detail_page_def str_def)
  have p: "text_content (page (fresh_context detail_page))
             (str ''div.topcard__flavor-row span.posted-time-ago__text'') =
           Inr (str ''3 days ago'')"
    by (simp add: fresh_context_def detail_page_def str_def)
  have n: "re_sub (str ''Senior'' @ [0x0A, 0x20, 0x20] @ str ''Engineer'') = str ''SeniorEngineer''"
    "re_sub ([0x0A, 0x09] @ str ''Acme Corp'' @ [0x0A]) = str ''AcmeCorp''"
    "re_sub (str ''3 days ago'') = str ''3daysago''"
    by (simp_all add: str_def in_class_def isspace_def)
  have u: "loaded_url (request (fresh_context detail_page)) =
           Some (str ''https://uk.linkedin.com/jobs/view/1'')"
    by (simp add: fresh_context_def)
  from listing_handler_emits_one_row[OF w t c p] show ?thesis
    by (simp only: n u option.case)
qed

text \<open>
  C5: when the load wait raises or one of the three locator reads raises, the
  extraction handler raises and the result sink is as it was: no row is emitted for
  the request, so neither a row without title nor a partial row.
\<close>

theorem listing_handler_failure_emits_nothing:
  assumes "wait_for_load_state (page ctx) (str ''load'') \<noteq> None
    \<or> isl (text_content (page ctx)
             (str ''div.top-card-layout__entity-info h1.top-card-layout__title''))
    \<or> isl (text_content (page ctx) (str ''span.topcard__flavor a''))
    \<or> isl (text_content (page ctx)
             (str ''div.topcard__flavor-row span.posted-time-ago__text''))"
  shows "isl (fst (listing_handler ctx))
     \<and> dataset (snd (listing_handler ctx)) = dataset ctx
     \<and> emitted listing_handler ctx = []
     \<and> filter is_push_data (handler_calls listing_handler ctx) = []"
proof (cases "wait_for_load_state (page ctx) (str ''load'')")
  case (Some e)
  then show ?thesis
    by (simp add: listing_handler_def coroutine_defs emitted_def handler_calls_def)
next
  case None
  note w = this
  show ?thesis
  proof (cases "text_content (page ctx)
      (str ''div.top-card-layout__entity-info h1.top-card-layout__title'')")
    case (Inl e)
    with w show ?thesis
      by (simp add: listing_handler_def coroutine_defs emitted_def handler_calls_def)
  next
    case (Inr job_title)
    note t = this
    show ?thesis
    proof (cases "text_content (page ctx) (str ''span.topcard__flavor a'')")
      case (Inl e)
      with w t show ?thesis
        by (simp add: listing_handler_def coroutine_defs emitted_def handler_calls_def)
    next
      case (Inr company_name)
      note c = this
      show ?thesis
      proof (cases "text_content (page ctx)
          (str ''div.topcard__flavor-row span.posted-time-ago__text'')")
        case (Inl e)
        with w t c show ?thesis
          by (simp add: listing_handler_def coroutine_defs emitted_def handler_calls_def)
      next
        case (Inr time_of_posting)
        with w t c assms show ?thesis by simp
      qed
    qed
  qed
qed

theorem listing_handler_failure_emits_nothing_witness:
  "isl (fst (listing_handler (fresh_context untitled_page)))
   \<and> dataset (snd (listing_handler (fresh_context untitled_page))) = []"
proof -
  have t: "isl (text_content (page (fresh_context untitled_page))
             (str ''div.top-card-layout__entity-info h1.top-card-layout__title''))"
    by (simp add: fresh_context_def untitled_page_def)
  have d: "dataset (fresh_context untitled_page) = []"
    by (simp add: fresh_context_def)
  from t have "wait_for_load_state (page (fresh_context untitled_page)) (str ''load'') \<noteq> None
    \<or> isl (text_content (page (fresh_context untitled_page))
             (str ''div.top-card-layout__entity-info h1.top-card-layout__title''))
    \<or> isl (text_content (page (fresh_context untitled_page)) (str ''span.topcard__flavor a''))
    \<or> isl (text_content (page (fresh_context untitled_page))
             (str ''div.topcard__flavor-row span.posted-time-ago__text''))"
    by (intro disjI2 disjI1)
  from listing_handler_failure_emits_nothing[OF this] d show ?thesis by simp
qed

text \<open>The paths through the extraction handler, and what each leaves behind.\<close>

lemma listing_handler_run:
  obtains
    (wait_raised) e where
      "wait_for_load_state (page ctx) (str ''load'') = Some e"
      "handler_calls listing_handler ctx = [WaitForLoadState (str ''load'')]"
      "emitted listing_handler ctx = []"
  | (read_raised) reads where
      "wait_for_load_state (page ctx) (str ''load'') = None"
      "handler_calls listing_handler ctx =
         WaitForLoadState (str ''load'') #
         TextContent (str ''div.top-card-layout__entity-info h1.top-card-layout__title'') # reads"
      "emitted listing_handler ctx = []"
  | (pushed) t c p where
      "wait_for_load_state (page ctx) (str ''load'') = None"
      "handler_calls listing_handler ctx =
         [WaitForLoadState (str ''load''),
          TextContent (str ''div.top-card-layout__entity-info h1.top-card-layout__title''),
          TextContent (str ''span.topcard__flavor a''),
          TextContent (str ''div.topcard__flavor-row span.posted-time-ago__text''),
          PushData [(str ''title'', Text (re_sub t)),
                    (str ''Company name'', Text (re_sub c)),
                    (str ''Time of posting'', Text (re_sub p)),
                    (str ''url'', case loaded_url (request ctx) of
                       None \<Rightarrow> Null | Some u \<Rightarrow> Text u)]]"
      "emitted listing_handler ctx =
         [[(str ''title'', Text (re_sub t)),
           (str ''Company name'', Text (re_sub c)),
           (str ''Time of posting'', Text (re_sub p)),
           (str ''url'', case loaded_url (request ctx) of None \<Rightarrow> Null | Some u \<Rightarrow> Text u)]]"
proof (cases "wait_for_load_state (page ctx) (str ''load'')")
  case (Some e)
  then show ?thesis
    by (intro wait_raised[of e])
       (simp_all add: listing_handler_def coroutine_defs emitted_def handler_calls_def)
next
  case None
  note w = this
  show ?thesis
  proof (cases "text_content (page ctx)
      (str ''div.top-card-layout__entity-info h1.top-card-layout__title'')")
    case (Inl e)
    with w show ?thesis
      by (intro read_raised[of "[]"])
         (simp_all add: listing_handler_def coroutine_defs emitted_def handler_calls_def)
  next
    case (Inr job_title)
    note t = this
    show ?thesis
    proof (cases "text_content (page ctx) (str ''span.topcard__flavor a'')")
      case (Inl e)
      with w t show ?thesis
        by (intro read_raised[of "[TextContent (str ''span.topcard__flavor a'')]"])
           (simp_all add: listing_handler_def coroutine_defs emitted_def handler_calls_def)
    next
      case (Inr company_name)
      note c = this
      show ?thesis
      proof (cases "text_content (page ctx)
          (str ''div.topcard__flavor-row span.posted-time-ago__text'')")
        case (Inl e)
        with w t c show ?thesis
          by (intro read_raised[of "[TextContent (str ''span.topcard__flavor a''),
                TextContent (str ''div.topcard__flavor-row span.posted-time-ago__text'')]"])
             (simp_all add: listing_handler_def coroutine_defs emitted_def handler_calls_def)
      next
        case (Inr time_of_posting)
        with w t c show ?thesis
          by (intro pushed[of job_title company_name time_of_posting])
             (simp_all add: listing_handler_def coroutine_defs emitted_def handler_calls_def)
      qed
    qed
  qed
qed

lemma scraped_keys_distinct:
  "str ''title'' \<noteq> str ''Company name''"
  "str ''title'' \<noteq> str ''Time of posting''"
  "str ''Company name'' \<noteq> str ''Time of posting''"
  by (simp_all add: str_def)

text \<open>
  C7: in every run of the extraction handler the first awaited call is the load wait,
  and it is the only call before the first locator read; when the wait raises, no
  read is issued at all, and when it returns, the read of the title follows it.
\<close>

theorem listing_handler_waits_before_reading:
  "takeWhile (\<lambda>ev. \<not> is_read ev) (handler_calls listing_handler ctx) =
     [WaitForLoadState (str ''load'')]
   \<and> (wait_for_load_state (page ctx) (str ''load'') \<noteq> None \<longrightarrow>
        handler_calls listing_handler ctx = [WaitForLoadState (str ''load'')])
   \<and> (wait_for_load_state (page ctx) (str ''load'') = None \<longrightarrow>
        take 2 (handler_calls listing_handler ctx) =
          [WaitForLoadState (str ''load''),
           TextContent (str ''div.top-card-layout__entity-info h1.top-card-layout__title'')])"
  by (cases rule: listing_handler_run[of ctx]) simp_all

theorem listing_handler_waits_before_reading_witness:
  "handler_calls listing_handler (fresh_context stalled_page) = [WaitForLoadState (str ''load'')]
   \<and> take 2 (handler_calls listing_handler (fresh_context untitled_page)) =
       [WaitForLoadState (str ''load''),
        TextContent (str ''div.top-card-layout__entity-info h1.top-card-layout__title'')]"
proof -
  have a: "wait_for_load_state (page (fresh_context stalled_page)) (str ''load'') \<noteq> None"
    by (simp add: fresh_context_def stalled_page_def)
  have b: "wait_for_load_state (page (fresh_context untitled_page)) (str ''load'') = None"
    by (simp add: fresh_context_def untitled_page_def)
  from listing_handler_waits_before_reading[of "fresh_context stalled_page"] a
    listing_handler_waits_before_reading[of "fresh_context untitled_page"] b
  show ?thesis by blast
qed

text \<open>
  C9: in every row emitted by the extraction handler, the values under \<open>title\<close>,
  \<open>Company name\<close> and \<open>Time of posting\<close> are texts without any whitespace character, and
  normalising such a value again leaves it as it is.
\<close>

theorem emitted_fields_have_no_whitespace:
  "\<forall>row \<in> set (emitted listing_handler ctx).
     \<forall>k \<in> {str ''title'', str ''Company name'', str ''Time of posting''}.
       \<exists>v. map_of row k = Some (Text v) \<and> (\<forall>c \<in> set v. \<not> isspace c) \<and> re_sub v = v"
proof (intro ballI)
  fix row k
  assume r: "row \<in> set (emitted listing_handler ctx)"
    and k: "k \<in> {str ''title'', str ''Company name'', str ''Time of posting''}"
  from r obtain t c p u where row:
    "row = [(str ''title'', Text (re_sub t)), (str ''Company name'', Text (re_sub c)),
            (str ''Time of posting'', Text (re_sub p)), (str ''url'', u)]"
    by (cases rule: listing_handler_run[of ctx]) simp_all
  have clean: "\<And>s. (\<forall>c \<in> set (re_sub s). \<not> isspace c) \<and> re_sub (re_sub s) = re_sub s"
    using re_sub_clean re_sub_idem by blast
  from k consider "k = str ''title''" | "k = str ''Company name''" | "k = str ''Time of posting''"
    by blast
  then show "\<exists>v. map_of row k = Some (Text v) \<and> (\<forall>c \<in> set v. \<not> isspace c) \<and> re_sub v = v"
  proof cases
    case 1
    then have "map_of row k = Some (Text (re_sub t))" by (simp add: row)
    with clean[of t] show ?thesis by blast
  next
    case 2
    then have "map_of row k = Some (Text (re_sub c))"
      by (simp add: row scraped_keys_distinct[symmetric])
    with clean[of c] show ?thesis by blast
  next
    case 3
    then have "map_of row k = Some (Text (re_sub p))"
      by (simp add: row scraped_keys_distinct[symmetric])
    with clean[of p] show ?thesis by blast
  qed
qed

theorem emitted_fields_have_no_whitespace_witness:
  "[(str ''title'', Text (str ''SeniorEngineer'')),
    (str ''Company name'', Text (str ''AcmeCorp'')),
    (str ''Time of posting'', Text (str ''3daysago'')),
    (str ''url'', Text (str ''https://uk.linkedin.com/jobs/view/1''))]
     \<in> set (emitted listing_handler (fresh_context detail_page))
   \<and> re_sub (str ''AcmeCorp'') = str ''AcmeCorp''
   \<and> \<not> isspace (hd (str ''AcmeCorp''))"
proof -
  let ?row = "[(str ''title'', Text (str ''SeniorEngineer'')),
    (str ''Company name'', Text (str ''AcmeCorp'')),
    (str ''Time of posting'', Text (str ''3daysago'')),
    (str ''url'', Text (str ''https://uk.linkedin.com/jobs/view/1''))]"
  have "emitted listing_handler (fresh_context detail_page) = [?row]"
    by (rule detail_page_row)
  then have m: "?row \<in> set (emitted listing_handler (fresh_context detail_page))"
    by simp
  have k: "str ''Company name'' \<in> {str ''title'', str ''Company name'', str ''Time of posting''}"
    by simp
  from emitted_fields_have_no_whitespace[of "fresh_context detail_page"] m k
  obtain v where v: "map_of ?row (str ''Company name'') = Some (Text v)"
    "\<forall>c \<in> set v. \<not> isspace c" "re_sub v = v"
    by blast
  have "map_of ?row (str ''Company name'') = Some (Text (str ''AcmeCorp''))"
    by (simp add: scraped_keys_distinct[symmetric])
  with v(1) have "v = str ''AcmeCorp''" by simp
  moreover have "hd (str ''AcmeCorp'') \<in> set (str ''AcmeCorp'')"
    by (simp add: str_def)
  ultimately show ?thesis using m v(2,3) by blast
qed

end
